theory Spec2Isabelle
  imports Main Complex_Main "HOL-Library.Word"
begin

section \<open>The octomap manager of volumetric\_mapping: data model\<close>

text \<open>
  The development embeds \<^verbatim>\<open>octomap_world/src/octomap_manager.cc\<close>. The members of
  \<^verbatim>\<open>OctomapManager\<close> that the file reads or writes form the record \<open>manager\<close>; every
  method is a function from the members before the call to the members after it, together
  with the list of calls it makes into its collaborators (ROS logging, the TF listener, the
  mapping engine that is the base class, the node handle). A \<^verbatim>\<open>double\<close> is a \<open>real\<close>: the
  file only copies doubles and converts 32-bit unsigned integers to them, both of which are
  exact.
\<close>

subsection \<open>Messages and matrices\<close>

text \<open>\<^verbatim>\<open>ros::Time\<close>: seconds and nanoseconds, both \<^verbatim>\<open>uint32_t\<close>. \<^verbatim>\<open>ros::Time(0)\<close> is the
  zero time, which TF reads as "the latest transform".\<close>

record ros_time =
  sec :: "32 word"
  nsec :: "32 word"

definition time_zero :: ros_time where
  "time_zero = \<lparr>sec = 0, nsec = 0\<rparr>"

text \<open>\<^verbatim>\<open>sensor_msgs::CameraInfo\<close>, with the fields the manager reads (\<open>width\<close>, \<open>height\<close>) and
  the intrinsic and projection coefficients that the derivation of the matrix receives.\<close>

record camera_info =
  width :: "32 word"
  height :: "32 word"
  cam_K :: "real list"
  cam_P :: "real list"

text \<open>A stamped message (\<^verbatim>\<open>stereo_msgs::DisparityImage\<close>, \<^verbatim>\<open>sensor_msgs::PointCloud2\<close>): the
  header's frame id and stamp, and the rest of the message, which the manager never opens.\<close>

record 'p stamped =
  frame_id :: string
  stamp :: ros_time
  payload :: 'p

text \<open>\<^verbatim>\<open>Eigen::Matrix4d\<close>: sixteen doubles stored column by column (Eigen's default storage
  order); \<open>coeff m i j\<close> is \<^verbatim>\<open>m(i, j)\<close>.\<close>

type_synonym matrix4d = "real list"

definition coeff :: "matrix4d \<Rightarrow> nat \<Rightarrow> nat \<Rightarrow> real" where
  "coeff m i j = m ! (i + 4 * j)"

definition Identity4 :: matrix4d where
  "Identity4 = [1, 0, 0, 0,  0, 1, 0, 0,  0, 0, 1, 0,  0, 0, 0, 1]"

text \<open>The assignment \<^verbatim>\<open>Q_ = Q_vec_map\<close> from an \<^verbatim>\<open>Eigen::Map\<close> of a row-major 4x4 matrix over
  the buffer \<open>v\<close>: coefficient \<open>(i, j)\<close> of the map is \<open>v[4 * i + j]\<close>, and the assignment copies
  coefficient by coefficient into the column-major destination.\<close>

definition assign_RowMajor_map :: "real list \<Rightarrow> matrix4d" where
  "assign_RowMajor_map v = concat (map (\<lambda>j. map (\<lambda>i. v ! (4 * i + j)) [0..<4]) [0..<4])"

text \<open>The row-major flattening of a matrix: its coefficients read row by row.\<close>

definition row_major :: "matrix4d \<Rightarrow> real list" where
  "row_major m = concat (map (\<lambda>i. map (\<lambda>j. coeff m i j) [0..<4]) [0..<4])"

type_synonym vector3d = "real \<times> real \<times> real"

text \<open>\<^verbatim>\<open>OctomapParameters\<close>, the parameters of the mapping engine read from the ROS
  parameter server.\<close>

record octomap_parameters =
  resolution :: real
  probability_hit :: real
  probability_miss :: real
  threshold_min :: real
  threshold_max :: real
  threshold_occupancy :: real
  filter_speckles :: bool
  sensor_max_range :: real
  visualize_min_z :: real
  visualize_max_z :: real

text \<open>What the private node handle answers for each parameter name: \<open>None\<close> when the
  parameter is not set.\<close>

record ros_params =
  param_tf_frame :: "string option"
  param_resolution :: "real option"
  param_probability_hit :: "real option"
  param_probability_miss :: "real option"
  param_threshold_min :: "real option"
  param_threshold_max :: "real option"
  param_threshold_occupancy :: "real option"
  param_filter_speckles :: "bool option"
  param_sensor_max_range :: "real option"
  param_visualize_min_z :: "real option"
  param_visualize_max_z :: "real option"
  param_full_image_width :: "real option"
  param_full_image_height :: "real option"
  param_map_publish_frequency :: "real option"
  param_Q :: "real list option"

text \<open>\<^verbatim>\<open>NodeHandle::param(name, val, default)\<close>: the parameter's value, or the default.\<close>

definition param :: "'a option \<Rightarrow> 'a \<Rightarrow> 'a" where
  "param p dflt = (case p of Some v \<Rightarrow> v | None \<Rightarrow> dflt)"

subsection \<open>Services\<close>

datatype callback =
    ResetMapCallback
  | PublishAllCallback
  | GetOctomapCallback
  | SaveOctomapCallback
  | LoadOctomapCallback
  | SetBoxOccupancyCallback

text \<open>A \<^verbatim>\<open>ros::ServiceServer\<close> handle: the service's name and the callback bound to it.\<close>

datatype service_server = ServiceServer (service_name: string) (service_callback: callback)


subsection \<open>Calls into the collaborators\<close>

text \<open>\<open>'k\<close> is the kindr \<^verbatim>\<open>Transformation\<close>, \<open>'dp\<close> and \<open>'pc\<close> the bodies of the disparity
  and point-cloud messages.\<close>

datatype ('k, 'dp, 'pc) effect =
    RosError string
  | RosWarn string
  | RosWarnThrottle nat string
  | TfCanTransform string string ros_time
  | TfLookupTransform string string ros_time
  | GetQForROSCameras camera_info camera_info
  | SetOctomapParameters octomap_parameters
  | AdvertiseService string callback
  | InsertDisparityImage 'k "'dp stamped" matrix4d "real \<times> real"
  | InsertPointcloud 'k "'pc stamped"
  | SetOccupied vector3d vector3d
  | SetFree vector3d vector3d
  | ResetMap

text \<open>The calls into the mapping engine's two insertion entry points.\<close>

fun is_insertion :: "('k, 'dp, 'pc) effect \<Rightarrow> bool" where
  "is_insertion (InsertDisparityImage T d q sz) = True"
| "is_insertion (InsertPointcloud T p) = True"
| "is_insertion _ = False"

text \<open>The calls to the TF listener: availability checks and lookups.\<close>

fun is_canTransform :: "('k, 'dp, 'pc) effect \<Rightarrow> bool" where
  "is_canTransform (TfCanTransform target source t) = True"
| "is_canTransform _ = False"

fun is_lookup :: "('k, 'dp, 'pc) effect \<Rightarrow> bool" where
  "is_lookup (TfLookupTransform target source t) = True"
| "is_lookup _ = False"

fun is_getQ :: "('k, 'dp, 'pc) effect \<Rightarrow> bool" where
  "is_getQ (GetQForROSCameras l r) = True"
| "is_getQ _ = False"

text \<open>The TF listener as the manager sees it during one callback: the answer of
  \<^verbatim>\<open>canTransform(target, source, time)\<close>, the outcome of
  \<^verbatim>\<open>lookupTransform(target, source, time, out)\<close> (the \<^verbatim>\<open>what()\<close> of the
  \<^verbatim>\<open>tf::TransformException\<close> it throws, or the stamped transform), and the conversion
  \<^verbatim>\<open>tf::transformTFToKindr\<close>. Nothing relates the two answers.\<close>

record ('tf, 'k) tf_listener =
  canTransform :: "string \<Rightarrow> string \<Rightarrow> ros_time \<Rightarrow> bool"
  lookupTransformTF :: "string \<Rightarrow> string \<Rightarrow> ros_time \<Rightarrow> string + 'tf"
  transformTFToKindr :: "'tf \<Rightarrow> 'k"

subsection \<open>The members of the manager\<close>

text \<open>The members that the methods below read or write. The class declaration is in a
  header outside this file; \<^verbatim>\<open>full_image_size_\<close> is taken to be a vector of two doubles, as
  its initialiser and its use as a parameter default suggest. The node handles, the
  subscribers, the publishers and the timer are left out: no method below reads them. The TF
  listener is an argument of the methods that query it.\<close>

record manager =
  world_frame :: string
  Q_initialized :: bool
  Q :: matrix4d
  full_image_size :: "real \<times> real"
  map_publish_frequency :: real
  left_info :: "camera_info option"
  right_info :: "camera_info option"
  reset_map_service :: "service_server option"
  publish_all_service :: "service_server option"
  get_map_service :: "service_server option"
  save_octree_service :: "service_server option"
  load_octree_service :: "service_server option"

text \<open>The member initialiser list of the constructor; members it does not name are
  default-constructed (null pointers, empty handles).\<close>

definition initial_members :: manager where
  "initial_members =
     \<lparr>world_frame = ''world'',
      Q_initialized = False,
      Q = Identity4,
      full_image_size = (752, 480),
      map_publish_frequency = 0,
      left_info = None,
      right_info = None,
      reset_map_service = None,
      publish_all_service = None,
      get_map_service = None,
      save_octree_service = None,
      load_octree_service = None\<rparr>"

text \<open>The service handles a manager holds.\<close>

definition service_members :: "manager \<Rightarrow> service_server option list" where
  "service_members s =
     [reset_map_service s, publish_all_service s, get_map_service s,
      save_octree_service s, load_octree_service s]"

section \<open>Calibration\<close>

text \<open>Streaming a \<^verbatim>\<open>size_t\<close> into the error message prints it in decimal: the digits
  of the quotient by ten, then the last digit.\<close>

definition digit :: "nat \<Rightarrow> char" where
  "digit k = ''0123456789'' ! k"

function decimal :: "nat \<Rightarrow> string" where
  "decimal n = (if n div 10 = 0 then [] else decimal (n div 10)) @ [digit (n mod 10)]"
  by pat_completeness auto
termination
  by (relation "measure (\<lambda>n. n)") auto

declare decimal.simps [simp del]

text \<open>\<^verbatim>\<open>setQFromParams\<close>: the calls made, the returned flag and the members afterwards.\<close>

definition setQFromParams ::
  "real list \<Rightarrow> manager \<Rightarrow> ('k, 'dp, 'pc) effect list \<times> bool \<times> manager" where
  "setQFromParams Q_vec s =
     (if length Q_vec \<noteq> 16 then
        ([RosError (''Invalid Q matrix size, expected size: 16, actual size: ''
                    @ decimal (length Q_vec))],
         False, s)
      else ([], True, s\<lparr>Q := assign_RowMajor_map Q_vec\<rparr>))"

text \<open>\<^verbatim>\<open>setParametersFromROS\<close>. The defaults of \<^verbatim>\<open>OctomapParameters\<close> are declared in a
  header outside this file and are taken as the argument \<open>defaults\<close>.\<close>

definition setParametersFromROS ::
  "octomap_parameters \<Rightarrow> ros_params \<Rightarrow> manager \<Rightarrow> ('k, 'dp, 'pc) effect list \<times> manager" where
  "setParametersFromROS defaults ps s =
     (let params =
            \<lparr>resolution = param (param_resolution ps) (resolution defaults),
             probability_hit = param (param_probability_hit ps) (probability_hit defaults),
             probability_miss = param (param_probability_miss ps) (probability_miss defaults),
             threshold_min = param (param_threshold_min ps) (threshold_min defaults),
             threshold_max = param (param_threshold_max ps) (threshold_max defaults),
             threshold_occupancy =
               param (param_threshold_occupancy ps) (threshold_occupancy defaults),
             filter_speckles = param (param_filter_speckles ps) (filter_speckles defaults),
             sensor_max_range = param (param_sensor_max_range ps) (sensor_max_range defaults),
             visualize_min_z = param (param_visualize_min_z ps) (visualize_min_z defaults),
             visualize_max_z = param (param_visualize_max_z ps) (visualize_max_z defaults)\<rparr>;
          s1 = s\<lparr>world_frame := param (param_tf_frame ps) (world_frame s),
                 full_image_size :=
                   (param (param_full_image_width ps) (fst (full_image_size s)),
                    param (param_full_image_height ps) (snd (full_image_size s))),
                 map_publish_frequency :=
                   param (param_map_publish_frequency ps) (map_publish_frequency s)\<rparr>;
          (log, s2) =
            (case param_Q ps of
               None \<Rightarrow> ([], s1)
             | Some Q_vec \<Rightarrow>
                 (let (es, ok, s') = setQFromParams Q_vec s1
                  in (es, s'\<lparr>Q_initialized := ok\<rparr>)))
      in (log @ [SetOctomapParameters params], s2))"

text \<open>\<^verbatim>\<open>calculateQ\<close> dereferences both stored descriptors; \<open>None\<close> is the dereference of a
  null pointer. \<^verbatim>\<open>getQForROSCameras\<close> belongs to the base class, outside this file, and is
  the argument \<open>getQ\<close>.\<close>

definition calculateQ ::
  "(camera_info \<Rightarrow> camera_info \<Rightarrow> matrix4d) \<Rightarrow> manager \<Rightarrow>
   (('k, 'dp, 'pc) effect list \<times> manager) option" where
  "calculateQ getQ s =
     (case (left_info s, right_info s) of
        (Some l, Some r) \<Rightarrow>
          Some ([GetQForROSCameras l r],
                s\<lparr>Q := getQ l r,
                  full_image_size := (real (unat (width l)), real (unat (height l))),
                  Q_initialized := True\<rparr>)
      | _ \<Rightarrow> None)"

definition leftCameraInfoCallback ::
  "(camera_info \<Rightarrow> camera_info \<Rightarrow> matrix4d) \<Rightarrow> camera_info option \<Rightarrow> manager \<Rightarrow>
   (('k, 'dp, 'pc) effect list \<times> manager) option" where
  "leftCameraInfoCallback getQ info s =
     (let s1 = s\<lparr>left_info := info\<rparr>
      in if left_info s1 \<noteq> None \<and> right_info s1 \<noteq> None \<and> \<not> Q_initialized s1
         then calculateQ getQ s1
         else Some ([], s1))"

definition rightCameraInfoCallback ::
  "(camera_info \<Rightarrow> camera_info \<Rightarrow> matrix4d) \<Rightarrow> camera_info option \<Rightarrow> manager \<Rightarrow>
   (('k, 'dp, 'pc) effect list \<times> manager) option" where
  "rightCameraInfoCallback getQ info s =
     (let s1 = s\<lparr>right_info := info\<rparr>
      in if left_info s1 \<noteq> None \<and> right_info s1 \<noteq> None \<and> \<not> Q_initialized s1
         then calculateQ getQ s1
         else Some ([], s1))"

section \<open>Transform resolution\<close>

text \<open>\<^verbatim>\<open>lookupTransform\<close>: the calls made and the transform written through the out
  parameter when the method returns true (\<open>None\<close> when it returns false).\<close>

definition lookupTransform ::
  "('tf, 'k) tf_listener \<Rightarrow> string \<Rightarrow> string \<Rightarrow> ros_time \<Rightarrow>
   ('k, 'dp, 'pc) effect list \<times> 'k option" where
  "lookupTransform tf from_frame to_frame timestamp =
     (let available = canTransform tf to_frame from_frame timestamp;
          time_to_lookup = (if \<not> available then time_zero else timestamp);
          es1 = TfCanTransform to_frame from_frame timestamp
                # (if \<not> available
                   then [RosWarn ''Using latest TF transform instead of timestamp match.'']
                   else []);
          es2 = es1 @ [TfLookupTransform to_frame from_frame time_to_lookup]
      in case lookupTransformTF tf to_frame from_frame time_to_lookup of
           Inl what \<Rightarrow>
             (es2 @ [RosError (''Error getting TF transform from sensor data: '' @ what)],
              None)
         | Inr tf_transform \<Rightarrow> (es2, Some (transformTFToKindr tf tf_transform)))"

section \<open>Frame dispatch\<close>

definition insertDisparityImageWithTf ::
  "('tf, 'k) tf_listener \<Rightarrow> 'dp stamped \<Rightarrow> manager \<Rightarrow> ('k, 'dp, 'pc) effect list \<times> manager" where
  "insertDisparityImageWithTf tf disparity s =
     (if \<not> Q_initialized s then
        ([RosWarnThrottle 1 ''No camera info available yet, skipping adding disparity.''], s)
      else
        (case lookupTransform tf (frame_id disparity) (world_frame s) (stamp disparity) of
           (es, Some sensor_to_world) \<Rightarrow>
             (es @ [InsertDisparityImage sensor_to_world disparity (Q s) (full_image_size s)], s)
         | (es, None) \<Rightarrow> (es, s)))"

definition insertPointcloudWithTf ::
  "('tf, 'k) tf_listener \<Rightarrow> 'pc stamped \<Rightarrow> manager \<Rightarrow> ('k, 'dp, 'pc) effect list \<times> manager" where
  "insertPointcloudWithTf tf pointcloud s =
     (case lookupTransform tf (frame_id pointcloud) (world_frame s) (stamp pointcloud) of
        (es, Some sensor_to_world) \<Rightarrow> (es @ [InsertPointcloud sensor_to_world pointcloud], s)
      | (es, None) \<Rightarrow> (es, s))"

section \<open>Services\<close>

text \<open>\<^verbatim>\<open>advertiseServices\<close>: six calls of \<^verbatim>\<open>advertiseService\<close>, each assigned to a member, in
  the order of the source.\<close>

definition advertiseService :: "string \<Rightarrow> callback \<Rightarrow> service_server" where
  "advertiseService name cb = ServiceServer name cb"

definition advertiseServices :: "manager \<Rightarrow> ('k, 'dp, 'pc) effect list \<times> manager" where
  "advertiseServices s =
     (let s1 = s\<lparr>reset_map_service := Some (advertiseService ''reset_map'' ResetMapCallback)\<rparr>;
          s2 = s1\<lparr>publish_all_service :=
                    Some (advertiseService ''publish_all'' PublishAllCallback)\<rparr>;
          s3 = s2\<lparr>get_map_service := Some (advertiseService ''get_map'' GetOctomapCallback)\<rparr>;
          s4 = s3\<lparr>save_octree_service :=
                    Some (advertiseService ''save_map'' SaveOctomapCallback)\<rparr>;
          s5 = s4\<lparr>load_octree_service :=
                    Some (advertiseService ''load_map'' LoadOctomapCallback)\<rparr>;
          s6 = s5\<lparr>load_octree_service :=
                    Some (advertiseService ''set_box_occupancy'' SetBoxOccupancyCallback)\<rparr>
      in ([AdvertiseService ''reset_map'' ResetMapCallback,
           AdvertiseService ''publish_all'' PublishAllCallback,
           AdvertiseService ''get_map'' GetOctomapCallback,
           AdvertiseService ''save_map'' SaveOctomapCallback,
           AdvertiseService ''load_map'' LoadOctomapCallback,
           AdvertiseService ''set_box_occupancy'' SetBoxOccupancyCallback], s6))"

subsection \<open>Bodies of the service callbacks\<close>

text \<open>Whether a callback returns a value is a matter of the statements of its body, so
  the bodies of the service callbacks are kept as statements: an expression statement that
  calls a collaborator, a \<^verbatim>\<open>return\<close> of a boolean expression, two statements in sequence,
  and \<^verbatim>\<open>if\<close>/\<^verbatim>\<open>else\<close>. Expressions are functions of the callback's request.\<close>

datatype ('req, 'c) stmt =
    ExprStmt "'req \<Rightarrow> 'c"
  | ReturnStmt "'req \<Rightarrow> bool"
  | Compound "('req, 'c) stmt" "('req, 'c) stmt"
  | IfElse "'req \<Rightarrow> bool" "('req, 'c) stmt" "('req, 'c) stmt"

text \<open>How control leaves a statement: through a \<^verbatim>\<open>return\<close> with its value, or by
  reaching the statement's end.\<close>

datatype completion = Returned bool | ReachedEnd

text \<open>The path control takes through a statement for a request: the calls on the path, in
  order, and how control leaves. Nothing after a \<^verbatim>\<open>return\<close> is on the path.\<close>

fun path :: "('req, 'c) stmt \<Rightarrow> 'req \<Rightarrow> 'c list \<times> completion" where
  "path (ExprStmt f) request = ([f request], ReachedEnd)"
| "path (ReturnStmt e) request = ([], Returned (e request))"
| "path (Compound a b) request =
     (case path a request of
        (cs, Returned v) \<Rightarrow> (cs, Returned v)
      | (cs, ReachedEnd) \<Rightarrow> (case path b request of (cs', r) \<Rightarrow> (cs @ cs', r)))"
| "path (IfElse c a b) request = (if c request then path a request else path b request)"


text \<open>A call of a function declared to return \<^verbatim>\<open>bool\<close>. When the path through the body
  ends in a \<^verbatim>\<open>return\<close>, the call makes the calls on the path and yields the value. When
  control reaches the closing brace of the body instead, the behaviour of the program is
  undefined in C++: nothing is promised from then on, neither a value nor which calls the
  compiled program makes, so that outcome carries no calls and no value.\<close>

datatype 'c behaviour = Defined "'c list" bool | UndefinedBehaviour

definition call_bool_function :: "('req, 'c) stmt \<Rightarrow> 'req \<Rightarrow> 'c behaviour" where
  "call_bool_function body request =
     (case path body request of
        (cs, Returned v) \<Rightarrow> Defined cs v
      | (cs, ReachedEnd) \<Rightarrow> UndefinedBehaviour)"




text \<open>The body of its sibling \<^verbatim>\<open>resetMapCallback\<close>, whose request is empty:
  \<^verbatim>\<open>resetMap(); return true;\<close>\<close>

definition resetMapCallback_body :: "(unit, ('k, 'dp, 'pc) effect) stmt" where
  "resetMapCallback_body = Compound (ExprStmt (\<lambda>request. ResetMap)) (ReturnStmt (\<lambda>request. True))"

definition resetMapCallback :: "unit \<Rightarrow> ('k, 'dp, 'pc) effect behaviour" where
  "resetMapCallback request = call_bool_function resetMapCallback_body request"

section \<open>Streams of arrivals\<close>

text \<open>The transport delivers descriptors and frames one callback at a time. A frame comes
  with the state of the TF listener at its arrival.\<close>

datatype ('tf, 'k, 'dp, 'pc) arrival =
    LeftInfo "camera_info option"
  | RightInfo "camera_info option"
  | Disparity "('tf, 'k) tf_listener" "'dp stamped"
  | Pointcloud "('tf, 'k) tf_listener" "'pc stamped"

fun deliver ::
  "(camera_info \<Rightarrow> camera_info \<Rightarrow> matrix4d) \<Rightarrow> ('tf, 'k, 'dp, 'pc) arrival \<Rightarrow> manager \<Rightarrow>
   (('k, 'dp, 'pc) effect list \<times> manager) option" where
  "deliver getQ (LeftInfo info) s = leftCameraInfoCallback getQ info s"
| "deliver getQ (RightInfo info) s = rightCameraInfoCallback getQ info s"
| "deliver getQ (Disparity tf d) s = Some (insertDisparityImageWithTf tf d s)"
| "deliver getQ (Pointcloud tf p) s = Some (insertPointcloudWithTf tf p s)"

fun deliver_all ::
  "(camera_info \<Rightarrow> camera_info \<Rightarrow> matrix4d) \<Rightarrow> ('tf, 'k, 'dp, 'pc) arrival list \<Rightarrow> manager \<Rightarrow>
   (('k, 'dp, 'pc) effect list \<times> manager) option" where
  "deliver_all getQ [] s = Some ([], s)"
| "deliver_all getQ (a # as) s =
     (case deliver getQ a s of
        None \<Rightarrow> None
      | Some (es, s') \<Rightarrow>
          (case deliver_all getQ as s' of
             None \<Rightarrow> None
           | Some (es', s'') \<Rightarrow> Some (es @ es', s'')))"

text \<open>What a Ready manager keeps through a run of arrivals from the members \<open>s\<close>: the run
  completes, the matrix, the flag and the image size are those of \<open>s\<close>, and no matrix was
  derived.\<close>

definition keeps_calibration ::
  "manager \<Rightarrow> (('k, 'dp, 'pc) effect list \<times> manager) option \<Rightarrow> bool" where
  "keeps_calibration s r =
     (case r of
        None \<Rightarrow> False
      | Some out \<Rightarrow>
          Q (snd out) = Q s \<and> Q_initialized (snd out)
          \<and> full_image_size (snd out) = full_image_size s
          \<and> filter is_getQ (fst out) = [])"

section \<open>Explicit calibration\<close>

lemma upt_0_4: "[0..<4] = [0, 1, 2, 3::nat]"
  by code_simp

lemma upt_0_16: "[0..<16] = [0, 1, 2, 3, 4, 5, 6, 7, 8, 9, 10, 11, 12, 13, 14, 15::nat]"
  by code_simp

lemma row_major_assign_nth:
  "row_major (assign_RowMajor_map v) = map (\<lambda>k. v ! k) [0..<16]"
  by (simp add: row_major_def assign_RowMajor_map_def coeff_def upt_0_4 upt_0_16)

lemma row_major_assign:
  assumes "length v = 16"
  shows "row_major (assign_RowMajor_map v) = v"
proof -
  have "map (\<lambda>k. v ! k) [0..<length v] = v" by (rule map_nth)
  with assms show ?thesis by (simp only: row_major_assign_nth)
qed

lemma setQFromParams_ok:
  "length Q_vec = 16 \<Longrightarrow> setQFromParams Q_vec s = ([], True, s\<lparr>Q := assign_RowMajor_map Q_vec\<rparr>)"
  by (simp add: setQFromParams_def)

lemma setQFromParams_bad:
  "length Q_vec \<noteq> 16 \<Longrightarrow>
   setQFromParams Q_vec s =
     ([RosError (''Invalid Q matrix size, expected size: 16, actual size: ''
                 @ decimal (length Q_vec))], False, s)"
  by (simp add: setQFromParams_def)

text \<open>
  Claim C4. For a coefficient vector of exactly 16 entries, \<^verbatim>\<open>setQFromParams\<close> logs no
  error and returns true, and the matrix it stores, read row by row, is the vector, entry for
  entry. \<^verbatim>\<open>setParametersFromROS\<close>, which assigns the returned flag to \<^verbatim>\<open>Q_initialized_\<close>,
  therefore leaves the manager Ready with that matrix as soon as the parameter \<^verbatim>\<open>Q\<close> has
  been read.
\<close>

theorem explicit_Q_sixteen:
  assumes "length Q_vec = 16"
  shows "(let out = (setQFromParams Q_vec s :: ('k, 'dp, 'pc) effect list \<times> bool \<times> manager);
              started = (setParametersFromROS defaults (ps\<lparr>param_Q := Some Q_vec\<rparr>) s
                           :: ('k, 'dp, 'pc) effect list \<times> manager)
          in fst out = []
             \<and> fst (snd out) = True
             \<and> row_major (Q (snd (snd out))) = Q_vec
             \<and> Q_initialized (snd started)
             \<and> row_major (Q (snd started)) = Q_vec)"
  using assms
  by (simp add: setQFromParams_ok setParametersFromROS_def Let_def row_major_assign)

theorem explicit_Q_sixteen_witness:
  "(let Q_vec = [1, 0, 0, -320, 0, 1, 0, -240, 0, 0, 0, 500, 0, 0, 25 / 3, 0 :: real];
        out = (setQFromParams Q_vec initial_members
                 :: (unit, unit, unit) effect list \<times> bool \<times> manager)
    in length Q_vec = 16
       \<and> fst (snd out) = True
       \<and> row_major (Q (snd (snd out))) = Q_vec
       \<and> coeff (Q (snd (snd out))) 0 3 = -320
       \<and> coeff (Q (snd (snd out))) 3 2 = 25 / 3)"
proof -
  have sixteen:
    "length [1, 0, 0, -320, 0, 1, 0, -240, 0, 0, 0, 500, 0, 0, 25 / 3, 0 :: real] = 16"
    by simp
  from explicit_Q_sixteen [where 'k = unit and 'dp = unit and 'pc = unit, OF sixteen,
      of initial_members]
  show ?thesis
    by (simp add: Let_def setQFromParams_def assign_RowMajor_map_def coeff_def upt_0_4)
qed

text \<open>
  Claim C5. For a coefficient vector whose length is not 16, \<^verbatim>\<open>setQFromParams\<close> reports the
  invalid size (with the actual size) through \<^verbatim>\<open>ROS_ERROR_STREAM\<close>, returns false, and
  leaves every member as it was, the matrix and the readiness flag among them. Its only
  caller, \<^verbatim>\<open>setParametersFromROS\<close> run by the constructor on the freshly initialised
  members, assigns the returned false to a flag that is false already, so the matrix and the
  flag are still those of the initialiser list.
\<close>

theorem explicit_Q_wrong_size:
  assumes "length Q_vec \<noteq> 16"
  shows "(let out = (setQFromParams Q_vec s :: ('k, 'dp, 'pc) effect list \<times> bool \<times> manager);
              started = (setParametersFromROS defaults (ps\<lparr>param_Q := Some Q_vec\<rparr>)
                           initial_members :: ('k, 'dp, 'pc) effect list \<times> manager)
          in out = ([RosError (''Invalid Q matrix size, expected size: 16, actual size: ''
                               @ decimal (length Q_vec))], False, s)
             \<and> Q (snd started) = Q initial_members
             \<and> Q_initialized (snd started) = Q_initialized initial_members)"
  using assms
  by (simp add: setQFromParams_bad setParametersFromROS_def Let_def initial_members_def)

theorem explicit_Q_wrong_size_witness:
  "length [1, 2, 3, 4, 5 :: real] \<noteq> 16
   \<and> (setQFromParams [1, 2, 3, 4, 5] initial_members
        :: (unit, unit, unit) effect list \<times> bool \<times> manager)
       = ([RosError ''Invalid Q matrix size, expected size: 16, actual size: 5''],
          False, initial_members)"
proof -
  have five: "decimal (Suc (Suc (Suc (Suc (Suc 0))))) = ''5''"
    by (simp add: decimal.simps digit_def)
  have size: "length [1, 2, 3, 4, 5 :: real] \<noteq> 16"
    by simp
  from explicit_Q_wrong_size [where 'k = unit and 'dp = unit and 'pc = unit, OF size,
      of initial_members]
  show ?thesis
    by (simp add: Let_def five)
qed

section \<open>Transform resolution\<close>

lemma lookupTransform_effects:
  "fst (lookupTransform tf from_frame to_frame t) =
     [TfCanTransform to_frame from_frame t]
     @ (if canTransform tf to_frame from_frame t then []
        else [RosWarn ''Using latest TF transform instead of timestamp match.''])
     @ [TfLookupTransform to_frame from_frame
          (if canTransform tf to_frame from_frame t then t else time_zero)]
     @ (case lookupTransformTF tf to_frame from_frame
               (if canTransform tf to_frame from_frame t then t else time_zero) of
          Inl what \<Rightarrow> [RosError (''Error getting TF transform from sensor data: '' @ what)]
        | Inr tf_transform \<Rightarrow> [])"
  by (simp add: lookupTransform_def Let_def split: sum.splits)

lemma lookupTransform_result:
  "snd (lookupTransform tf from_frame to_frame t) =
     (case lookupTransformTF tf to_frame from_frame
             (if canTransform tf to_frame from_frame t then t else time_zero) of
        Inl what \<Rightarrow> None
      | Inr tf_transform \<Rightarrow> Some (transformTFToKindr tf tf_transform))"
  by (simp add: lookupTransform_def Let_def split: sum.splits)

lemma lookupTransform_no_insertion:
  "filter is_insertion (fst (lookupTransform tf from_frame to_frame t)) = []"
  by (simp add: lookupTransform_effects split: sum.splits)

lemma lookupTransform_no_getQ:
  "filter is_getQ (fst (lookupTransform tf from_frame to_frame t)) = []"
  by (simp add: lookupTransform_effects split: sum.splits)

text \<open>
  Claim C2. Every call of \<^verbatim>\<open>lookupTransform\<close> makes, in this order: one availability check
  at the requested timestamp; the warning, exactly when that check fails; one lookup, at the
  requested timestamp when the check succeeded and at time zero when it failed; the error
  line, exactly when that lookup throws. There is one check and one lookup in all, no second
  attempt and no waiting call, and the result is the outcome of that one lookup: a failed
  check alone never makes the call fail.
\<close>

theorem lookupTransform_policy:
  "(let r = (lookupTransform tf from_frame to_frame t :: ('k, 'dp, 'pc) effect list \<times> 'k option);
        available = canTransform tf to_frame from_frame t;
        time_to_lookup = (if available then t else time_zero);
        outcome = lookupTransformTF tf to_frame from_frame time_to_lookup
    in fst r =
         [TfCanTransform to_frame from_frame t]
         @ (if available then []
            else [RosWarn ''Using latest TF transform instead of timestamp match.''])
         @ [TfLookupTransform to_frame from_frame time_to_lookup]
         @ (case outcome of
              Inl what \<Rightarrow>
                [RosError (''Error getting TF transform from sensor data: '' @ what)]
            | Inr tf_transform \<Rightarrow> [])
       \<and> hd (fst r) = TfCanTransform to_frame from_frame t
       \<and> filter is_canTransform (fst r) = [TfCanTransform to_frame from_frame t]
       \<and> filter is_lookup (fst r) = [TfLookupTransform to_frame from_frame time_to_lookup]
       \<and> (RosWarn ''Using latest TF transform instead of timestamp match.'' \<in> set (fst r))
           = (\<not> available)
       \<and> snd r = (case outcome of
                    Inl what \<Rightarrow> None
                  | Inr tf_transform \<Rightarrow> Some (transformTFToKindr tf tf_transform)))"
  by (simp add: lookupTransform_effects lookupTransform_result Let_def split: sum.splits)

section \<open>Frame dispatch\<close>

lemma insertDisparityImageWithTf_members:
  "snd (insertDisparityImageWithTf tf d s) = s"
  by (simp add: insertDisparityImageWithTf_def case_prod_beta split: option.splits)

lemma insertPointcloudWithTf_members:
  "snd (insertPointcloudWithTf tf p s) = s"
  by (simp add: insertPointcloudWithTf_def case_prod_beta split: option.splits)

lemma insertDisparityImageWithTf_not_ready:
  "\<not> Q_initialized s \<Longrightarrow>
   insertDisparityImageWithTf tf d s =
     ([RosWarnThrottle 1 ''No camera info available yet, skipping adding disparity.''], s)"
  by (simp add: insertDisparityImageWithTf_def)

lemma insertDisparityImageWithTf_ready:
  "Q_initialized s \<Longrightarrow>
   fst (insertDisparityImageWithTf tf d s) =
     (let r = lookupTransform tf (frame_id d) (world_frame s) (stamp d)
      in fst r @ (case snd r of
                    Some T \<Rightarrow> [InsertDisparityImage T d (Q s) (full_image_size s)]
                  | None \<Rightarrow> []))"
  by (simp add: insertDisparityImageWithTf_def case_prod_beta Let_def split: option.splits)

lemma insertPointcloudWithTf_effects:
  "fst (insertPointcloudWithTf tf p s) =
     (let r = lookupTransform tf (frame_id p) (world_frame s) (stamp p)
      in fst r @ (case snd r of Some T \<Rightarrow> [InsertPointcloud T p] | None \<Rightarrow> []))"
  by (simp add: insertPointcloudWithTf_def case_prod_beta Let_def split: option.splits)

text \<open>
  Claim C3. A disparity frame that arrives while \<^verbatim>\<open>Q_initialized_\<close> is false makes one call,
  the throttled warning (period 1 second), and nothing else: no TF call and no insertion. A
  disparity frame that arrives while it is true makes the calls of \<^verbatim>\<open>lookupTransform\<close> for
  (frame id of the message, world frame, stamp of the message), followed, when a transform
  came back, by the single call \<^verbatim>\<open>insertDisparityImage\<close> with that transform, the message, the
  stored matrix and the stored image size; when none came back there is no insertion. The
  members are unchanged in every case.
\<close>

theorem disparity_dispatch:
  fixes tf :: "('tf, 'k) tf_listener" and d :: "'dp stamped"
  shows
  "(let r = lookupTransform tf (frame_id d) (world_frame s) (stamp d);
        out = (insertDisparityImageWithTf tf d s :: ('k, 'dp, 'pc) effect list \<times> manager)
    in (\<not> Q_initialized s \<longrightarrow>
          out = ([RosWarnThrottle 1
                    ''No camera info available yet, skipping adding disparity.''], s))
       \<and> (Q_initialized s \<longrightarrow>
            fst out = fst r @ (case snd r of
                                Some T \<Rightarrow> [InsertDisparityImage T d (Q s) (full_image_size s)]
                              | None \<Rightarrow> [])
            \<and> filter is_insertion (fst out) =
                (case snd r of
                   Some T \<Rightarrow> [InsertDisparityImage T d (Q s) (full_image_size s)]
                 | None \<Rightarrow> [])
            \<and> snd out = s))"
proof (cases "Q_initialized s")
  case False
  then show ?thesis by (simp add: insertDisparityImageWithTf_not_ready)
next
  case True
  then show ?thesis
    by (simp add: insertDisparityImageWithTf_ready insertDisparityImageWithTf_members
        lookupTransform_no_insertion Let_def split: option.splits)
qed

theorem disparity_dispatch_witness:
  "(let tf = \<lparr>canTransform = (\<lambda>target source t. True),
              lookupTransformTF = (\<lambda>target source t. Inr (7::nat)),
              transformTFToKindr = (\<lambda>x::nat. x)\<rparr>;
        lost = \<lparr>canTransform = (\<lambda>target source t. False),
                lookupTransformTF = (\<lambda>target source t. Inl ''frames not connected''),
                transformTFToKindr = (\<lambda>x::nat. x)\<rparr>;
        d = \<lparr>frame_id = ''cam0'', stamp = \<lparr>sec = 5, nsec = 0\<rparr>, payload = ()\<rparr>;
        ready = initial_members\<lparr>Q_initialized := True\<rparr>
    in \<not> Q_initialized initial_members
       \<and> Q_initialized ready
       \<and> filter is_insertion
           (fst (insertDisparityImageWithTf tf d initial_members
                   :: (nat, unit, unit) effect list \<times> manager)) = []
       \<and> filter is_insertion
           (fst (insertDisparityImageWithTf tf d ready
                   :: (nat, unit, unit) effect list \<times> manager))
           = [InsertDisparityImage 7 d Identity4 (752, 480)]
       \<and> filter is_insertion
           (fst (insertDisparityImageWithTf lost d ready
                   :: (nat, unit, unit) effect list \<times> manager)) = [])"
  using
    disparity_dispatch
      [where 'pc = unit,
       of "\<lparr>canTransform = (\<lambda>target source t. True),
            lookupTransformTF = (\<lambda>target source t. Inr (7::nat)),
            transformTFToKindr = (\<lambda>x::nat. x)\<rparr>"
          "\<lparr>frame_id = ''cam0'', stamp = \<lparr>sec = 5, nsec = 0\<rparr>, payload = ()\<rparr>"
          initial_members]
    disparity_dispatch
      [where 'pc = unit,
       of "\<lparr>canTransform = (\<lambda>target source t. True),
            lookupTransformTF = (\<lambda>target source t. Inr (7::nat)),
            transformTFToKindr = (\<lambda>x::nat. x)\<rparr>"
          "\<lparr>frame_id = ''cam0'', stamp = \<lparr>sec = 5, nsec = 0\<rparr>, payload = ()\<rparr>"
          "initial_members\<lparr>Q_initialized := True\<rparr>"]
    disparity_dispatch
      [where 'pc = unit,
       of "\<lparr>canTransform = (\<lambda>target source t. False),
            lookupTransformTF = (\<lambda>target source t. Inl ''frames not connected''),
            transformTFToKindr = (\<lambda>x::nat. x)\<rparr>"
          "\<lparr>frame_id = ''cam0'', stamp = \<lparr>sec = 5, nsec = 0\<rparr>, payload = ()\<rparr>"
          "initial_members\<lparr>Q_initialized := True\<rparr>"]
  by (simp add: Let_def initial_members_def lookupTransform_def)

text \<open>
  Claim C8. \<^verbatim>\<open>insertPointcloudWithTf\<close> makes the calls of \<^verbatim>\<open>lookupTransform\<close> for (frame id
  of the message, world frame, stamp of the message), followed, when a transform came back,
  by the single call \<^verbatim>\<open>insertPointcloud\<close> with that transform and the message; when none came
  back there is no insertion. The members are unchanged, and the calls made do not depend on
  \<^verbatim>\<open>Q_initialized_\<close>: they are the same whatever value the flag is given.
\<close>

theorem pointcloud_dispatch:
  fixes tf :: "('tf, 'k) tf_listener" and p :: "'pc stamped"
  shows
  "(let r = lookupTransform tf (frame_id p) (world_frame s) (stamp p);
        out = (insertPointcloudWithTf tf p s :: ('k, 'dp, 'pc) effect list \<times> manager)
    in fst out = fst r @ (case snd r of Some T \<Rightarrow> [InsertPointcloud T p] | None \<Rightarrow> [])
       \<and> filter is_insertion (fst out) =
           (case snd r of Some T \<Rightarrow> [InsertPointcloud T p] | None \<Rightarrow> [])
       \<and> snd out = s
       \<and> fst (insertPointcloudWithTf tf p (s\<lparr>Q_initialized := b\<rparr>)) = fst out)"
  by (simp add: insertPointcloudWithTf_effects insertPointcloudWithTf_members
      lookupTransform_no_insertion Let_def split: option.splits)

lemma deliver_all_Disparity:
  "deliver_all getQ (Disparity tf d # rest) s =
     map_option (\<lambda>(es, s'). (fst (insertDisparityImageWithTf tf d s) @ es, s'))
       (deliver_all getQ rest s)"
  by (simp add: case_prod_beta insertDisparityImageWithTf_members split: option.splits)

lemma deliver_all_Pointcloud:
  "deliver_all getQ (Pointcloud tf p # rest) s =
     map_option (\<lambda>(es, s'). (fst (insertPointcloudWithTf tf p s) @ es, s'))
       (deliver_all getQ rest s)"
  by (simp add: case_prod_beta insertPointcloudWithTf_members split: option.splits)

text \<open>
  Claim C7, as the code has it. When the one lookup that \<^verbatim>\<open>lookupTransform\<close> makes (at the
  requested timestamp, or at time zero after a failed availability check) throws a
  \<^verbatim>\<open>tf::TransformException\<close>, the method returns false, a value that holds no text; the
  exception's \<^verbatim>\<open>what()\<close> text is carried by the error line, which is the last thing the
  method logs. Both callers then return normally without any insertion and with the members
  unchanged, so the frames that follow are processed exactly as they would have been from
  the members before the failing frame: a run that starts with the failing frame is the calls
  of that frame followed by the run of the remaining arrivals.
\<close>

theorem lookup_failure_drops_frame:
  fixes tf :: "('tf, 'k) tf_listener" and d :: "'dp stamped" and p :: "'pc stamped"
    and rest :: "('tf, 'k, 'dp, 'pc) arrival list"
  assumes "lookupTransformTF tf (world_frame s) src
             (if canTransform tf (world_frame s) src t then t else time_zero) = Inl what"
    and "frame_id d = src" and "stamp d = t" and "frame_id p = src" and "stamp p = t"
  shows "(let r = (lookupTransform tf src (world_frame s) t
                     :: ('k, 'dp, 'pc) effect list \<times> 'k option)
          in snd r = None
             \<and> last (fst r) = RosError (''Error getting TF transform from sensor data: '' @ what)
             \<and> filter is_insertion (fst r) = [])
       \<and> (let out = (insertDisparityImageWithTf tf d s :: ('k, 'dp, 'pc) effect list \<times> manager)
          in snd out = s \<and> filter is_insertion (fst out) = [])
       \<and> (let out = (insertPointcloudWithTf tf p s :: ('k, 'dp, 'pc) effect list \<times> manager)
          in snd out = s \<and> filter is_insertion (fst out) = [])
       \<and> deliver_all getQ (Disparity tf d # rest) s =
           map_option (\<lambda>(es, s'). (fst (insertDisparityImageWithTf tf d s) @ es, s'))
             (deliver_all getQ rest s)
       \<and> deliver_all getQ (Pointcloud tf p # rest) s =
           map_option (\<lambda>(es, s'). (fst (insertPointcloudWithTf tf p s) @ es, s'))
             (deliver_all getQ rest s)"
proof -
  have "(let r = (lookupTransform tf src (world_frame s) t
                    :: ('k, 'dp, 'pc) effect list \<times> 'k option)
         in snd r = None
            \<and> last (fst r) = RosError (''Error getting TF transform from sensor data: '' @ what)
            \<and> filter is_insertion (fst r) = [])"
    using assms(1)
    by (simp add: lookupTransform_result lookupTransform_effects Let_def)
  moreover have "(let out = (insertDisparityImageWithTf tf d s
                               :: ('k, 'dp, 'pc) effect list \<times> manager)
                  in snd out = s \<and> filter is_insertion (fst out) = [])"
  proof (cases "Q_initialized s")
    case True
    with assms(2,3) show ?thesis
      by (simp add: insertDisparityImageWithTf_members insertDisparityImageWithTf_ready
          lookupTransform_result lookupTransform_no_insertion Let_def assms(1))
  next
    case False
    then show ?thesis
      by (simp add: insertDisparityImageWithTf_not_ready)
  qed
  moreover have "(let out = (insertPointcloudWithTf tf p s
                               :: ('k, 'dp, 'pc) effect list \<times> manager)
                  in snd out = s \<and> filter is_insertion (fst out) = [])"
    using assms(4,5)
    by (simp add: insertPointcloudWithTf_members insertPointcloudWithTf_effects
        lookupTransform_result lookupTransform_no_insertion Let_def assms(1))
  ultimately show ?thesis
    by (simp only: deliver_all_Disparity deliver_all_Pointcloud simp_thms)
qed

theorem lookup_failure_drops_frame_witness:
  "(let lost = \<lparr>canTransform = (\<lambda>target source t. False),
                lookupTransformTF = (\<lambda>target source t. Inl ''frames not connected''),
                transformTFToKindr = (\<lambda>x::nat. x)\<rparr>;
        healthy = \<lparr>canTransform = (\<lambda>target source t. True),
                   lookupTransformTF = (\<lambda>target source t. Inr 7),
                   transformTFToKindr = (\<lambda>x::nat. x)\<rparr>;
        s = initial_members\<lparr>Q_initialized := True\<rparr>;
        d = \<lparr>frame_id = ''cam0'', stamp = \<lparr>sec = 5, nsec = 0\<rparr>, payload = ()\<rparr>;
        p = \<lparr>frame_id = ''cam0'', stamp = \<lparr>sec = 5, nsec = 0\<rparr>, payload = ()\<rparr>
    in lookupTransformTF lost (world_frame s) ''cam0''
         (if canTransform lost (world_frame s) ''cam0'' \<lparr>sec = 5, nsec = 0\<rparr>
          then \<lparr>sec = 5, nsec = 0\<rparr> else time_zero) = Inl ''frames not connected''
       \<and> insertDisparityImageWithTf lost d s =
           ([TfCanTransform ''world'' ''cam0'' \<lparr>sec = 5, nsec = 0\<rparr>,
             RosWarn ''Using latest TF transform instead of timestamp match.'',
             TfLookupTransform ''world'' ''cam0'' time_zero,
             RosError ''Error getting TF transform from sensor data: frames not connected''
               :: (nat, unit, unit) effect],
            s)
       \<and> deliver_all (\<lambda>l r. Identity4) [Disparity lost d, Pointcloud healthy p] s =
           Some (fst (insertDisparityImageWithTf lost d s)
                 @ [TfCanTransform ''world'' ''cam0'' \<lparr>sec = 5, nsec = 0\<rparr>,
                    TfLookupTransform ''world'' ''cam0'' \<lparr>sec = 5, nsec = 0\<rparr>,
                    InsertPointcloud 7 p], s))"
  using lookup_failure_drops_frame
    [where tf = "\<lparr>canTransform = (\<lambda>target source t. False),
                  lookupTransformTF = (\<lambda>target source t. Inl ''frames not connected''),
                  transformTFToKindr = (\<lambda>x::nat. x)\<rparr>"
       and s = "initial_members\<lparr>Q_initialized := True\<rparr>"
       and src = "''cam0''" and t = "\<lparr>sec = 5, nsec = 0\<rparr>"
       and what = "''frames not connected''"
       and d = "\<lparr>frame_id = ''cam0'', stamp = \<lparr>sec = 5, nsec = 0\<rparr>, payload = ()\<rparr>"
       and p = "\<lparr>frame_id = ''cam0'', stamp = \<lparr>sec = 5, nsec = 0\<rparr>, payload = ()\<rparr>"
       and getQ = "\<lambda>l r. Identity4"
       and rest = "[Pointcloud \<lparr>canTransform = (\<lambda>target source t. True),
                               lookupTransformTF = (\<lambda>target source t. Inr 7),
                               transformTFToKindr = (\<lambda>x::nat. x)\<rparr>
                      \<lparr>frame_id = ''cam0'', stamp = \<lparr>sec = 5, nsec = 0\<rparr>, payload = ()\<rparr>]"]
  by (simp add: Let_def initial_members_def insertDisparityImageWithTf_def
      insertPointcloudWithTf_def lookupTransform_def time_zero_def)

text \<open>
  The value that \<^verbatim>\<open>lookupTransform\<close> returns on failure does not carry the cause: two
  listeners whose lookups throw with different texts make it return the same value.
\<close>

theorem lookup_failure_return_has_no_text:
  "lookupTransformTF
     \<lparr>canTransform = (\<lambda>target source t. False),
      lookupTransformTF = (\<lambda>target source t. Inl ''frames not connected''),
      transformTFToKindr = (\<lambda>x::nat. x)\<rparr> ''world'' ''cam0'' time_zero
     = Inl ''frames not connected''
   \<and> lookupTransformTF
       \<lparr>canTransform = (\<lambda>target source t. False),
        lookupTransformTF = (\<lambda>target source t. Inl ''extrapolation into the future''),
        transformTFToKindr = (\<lambda>x::nat. x)\<rparr> ''world'' ''cam0'' time_zero
       = Inl ''extrapolation into the future''
   \<and> ''frames not connected'' \<noteq> ''extrapolation into the future''
   \<and> snd (lookupTransform
             \<lparr>canTransform = (\<lambda>target source t. False),
              lookupTransformTF = (\<lambda>target source t. Inl ''frames not connected''),
              transformTFToKindr = (\<lambda>x::nat. x)\<rparr>
             ''cam0'' ''world'' \<lparr>sec = 5, nsec = 0\<rparr>
           :: (nat, unit, unit) effect list \<times> nat option)
       = snd (lookupTransform
                \<lparr>canTransform = (\<lambda>target source t. False),
                 lookupTransformTF = (\<lambda>target source t. Inl ''extrapolation into the future''),
                 transformTFToKindr = (\<lambda>x::nat. x)\<rparr>
                ''cam0'' ''world'' \<lparr>sec = 5, nsec = 0\<rparr>
              :: (nat, unit, unit) effect list \<times> nat option)
   \<and> last (fst (lookupTransform
                   \<lparr>canTransform = (\<lambda>target source t. False),
                    lookupTransformTF = (\<lambda>target source t. Inl ''frames not connected''),
                    transformTFToKindr = (\<lambda>x::nat. x)\<rparr>
                   ''cam0'' ''world'' \<lparr>sec = 5, nsec = 0\<rparr>
                 :: (nat, unit, unit) effect list \<times> nat option))
       \<noteq> last (fst (lookupTransform
                      \<lparr>canTransform = (\<lambda>target source t. False),
                       lookupTransformTF =
                         (\<lambda>target source t. Inl ''extrapolation into the future''),
                       transformTFToKindr = (\<lambda>x::nat. x)\<rparr>
                      ''cam0'' ''world'' \<lparr>sec = 5, nsec = 0\<rparr>
                    :: (nat, unit, unit) effect list \<times> nat option))"
  by (simp add: lookupTransform_def)

section \<open>Derived calibration and the readiness latch\<close>

lemma leftCameraInfoCallback_ready:
  "Q_initialized s \<Longrightarrow> leftCameraInfoCallback getQ info s = Some ([], s\<lparr>left_info := info\<rparr>)"
  by (simp add: leftCameraInfoCallback_def)

lemma rightCameraInfoCallback_ready:
  "Q_initialized s \<Longrightarrow> rightCameraInfoCallback getQ info s = Some ([], s\<lparr>right_info := info\<rparr>)"
  by (simp add: rightCameraInfoCallback_def)

lemma deliver_keeps_calibration:
  assumes "Q_initialized s"
  shows "keeps_calibration s (deliver getQ a s)"
proof (cases a)
  case (LeftInfo info)
  with assms show ?thesis
    by (simp add: keeps_calibration_def leftCameraInfoCallback_ready)
next
  case (RightInfo info)
  with assms show ?thesis
    by (simp add: keeps_calibration_def rightCameraInfoCallback_ready)
next
  case (Disparity tf d)
  with assms show ?thesis
    by (simp add: keeps_calibration_def insertDisparityImageWithTf_ready
        insertDisparityImageWithTf_members lookupTransform_no_getQ Let_def
        split: option.splits)
next
  case (Pointcloud tf p)
  with assms show ?thesis
    by (simp add: keeps_calibration_def insertPointcloudWithTf_effects
        insertPointcloudWithTf_members lookupTransform_no_getQ Let_def
        split: option.splits)
qed

lemma deliver_all_keeps_calibration:
  "Q_initialized s \<Longrightarrow> keeps_calibration s (deliver_all getQ as s)"
proof (induction as arbitrary: s)
  case Nil
  then show ?case by (simp add: keeps_calibration_def)
next
  case (Cons a as)
  from Cons.prems have "keeps_calibration s (deliver getQ a s)"
    by (rule deliver_keeps_calibration)
  then obtain es s1 where first: "deliver getQ a s = Some (es, s1)"
    and s1: "Q s1 = Q s" "Q_initialized s1" "full_image_size s1 = full_image_size s"
      "filter is_getQ es = []"
    by (auto simp add: keeps_calibration_def split: option.splits)
  from Cons.IH [OF s1(2)] obtain es' s2 where later: "deliver_all getQ as s1 = Some (es', s2)"
    and s2: "Q s2 = Q s1" "Q_initialized s2" "full_image_size s2 = full_image_size s1"
      "filter is_getQ es' = []"
    by (auto simp add: keeps_calibration_def split: option.splits)
  from first later s1 s2 show ?case
    by (simp add: keeps_calibration_def)
qed

text \<open>
  Claim C1. Once \<^verbatim>\<open>Q_initialized_\<close> is true, however it became so, a left or a right
  camera-info arrival stores the descriptor as the last one seen for its side, calls nothing
  and changes no other member. Through any run of arrivals that follows (descriptors of
  either side, and frames) the run completes, the matrix, the readiness flag and the image
  size stay those of the start, and \<^verbatim>\<open>getQForROSCameras\<close> is never called.
\<close>

theorem ready_is_latched:
  fixes as :: "('tf, 'k, 'dp, 'pc) arrival list"
  assumes "Q_initialized s"
  shows "leftCameraInfoCallback getQ info s
           = Some ([] :: ('k, 'dp, 'pc) effect list, s\<lparr>left_info := info\<rparr>)
       \<and> rightCameraInfoCallback getQ info s
           = Some ([] :: ('k, 'dp, 'pc) effect list, s\<lparr>right_info := info\<rparr>)
       \<and> keeps_calibration s (deliver_all getQ as s)"
  using assms
  by (simp add: leftCameraInfoCallback_ready rightCameraInfoCallback_ready
      deliver_all_keeps_calibration)

theorem ready_is_latched_witness:
  "(let s = snd (setParametersFromROS
                   \<lparr>resolution = 0, probability_hit = 0, probability_miss = 0,
                    threshold_min = 0, threshold_max = 0, threshold_occupancy = 0,
                    filter_speckles = True, sensor_max_range = 0, visualize_min_z = 0,
                    visualize_max_z = 0\<rparr>
                   \<lparr>param_tf_frame = None, param_resolution = None,
                    param_probability_hit = None, param_probability_miss = None,
                    param_threshold_min = None, param_threshold_max = None,
                    param_threshold_occupancy = None, param_filter_speckles = None,
                    param_sensor_max_range = None, param_visualize_min_z = None,
                    param_visualize_max_z = None, param_full_image_width = None,
                    param_full_image_height = None, param_map_publish_frequency = None,
                    param_Q = Some [1, 0, 0, -320, 0, 1, 0, -240,
                                    0, 0, 0, 500, 0, 0, 25 / 3, 0]\<rparr>
                   initial_members :: (nat, unit, unit) effect list \<times> manager);
        l = \<lparr>width = 640, height = 400, cam_K = [], cam_P = []\<rparr>;
        r = \<lparr>width = 320, height = 200, cam_K = [], cam_P = []\<rparr>;
        run = deliver_all (\<lambda>l r. Identity4)
                [LeftInfo (Some l), RightInfo (Some r), LeftInfo (Some r)
                   :: (nat, nat, unit, unit) arrival] s
    in Q_initialized s
       \<and> keeps_calibration s run
       \<and> run = Some ([], s\<lparr>left_info := Some r, right_info := Some r\<rparr>)
       \<and> full_image_size s = (752, 480))"
proof -
  have sixteen:
    "length [1, 0, 0, -320, 0, 1, 0, -240, 0, 0, 0, 500, 0, 0, 25 / 3, 0 :: real] = 16"
    by simp
  show ?thesis
    using ready_is_latched
      [where s = "snd (setParametersFromROS
                   \<lparr>resolution = 0, probability_hit = 0, probability_miss = 0,
                    threshold_min = 0, threshold_max = 0, threshold_occupancy = 0,
                    filter_speckles = True, sensor_max_range = 0, visualize_min_z = 0,
                    visualize_max_z = 0\<rparr>
                   \<lparr>param_tf_frame = None, param_resolution = None,
                    param_probability_hit = None, param_probability_miss = None,
                    param_threshold_min = None, param_threshold_max = None,
                    param_threshold_occupancy = None, param_filter_speckles = None,
                    param_sensor_max_range = None, param_visualize_min_z = None,
                    param_visualize_max_z = None, param_full_image_width = None,
                    param_full_image_height = None, param_map_publish_frequency = None,
                    param_Q = Some [1, 0, 0, -320, 0, 1, 0, -240,
                                    0, 0, 0, 500, 0, 0, 25 / 3, 0]\<rparr>
                   initial_members :: (nat, unit, unit) effect list \<times> manager)"
         and getQ = "\<lambda>l r. Identity4"
         and info = None
         and as = "[LeftInfo (Some \<lparr>width = 640, height = 400, cam_K = [], cam_P = []\<rparr>),
                   RightInfo (Some \<lparr>width = 320, height = 200, cam_K = [], cam_P = []\<rparr>),
                   LeftInfo (Some \<lparr>width = 320, height = 200, cam_K = [], cam_P = []\<rparr>)
                     :: (nat, nat, unit, unit) arrival]"]
    by (simp add: Let_def setParametersFromROS_def setQFromParams_ok [OF sixteen] param_def
        initial_members_def leftCameraInfoCallback_def rightCameraInfoCallback_def)
qed

text \<open>
  Claim C6. A left arrival stores the descriptor; if the stored left and right descriptors
  are then both present and \<^verbatim>\<open>Q_initialized_\<close> is false, the callback calls
  \<^verbatim>\<open>getQForROSCameras\<close> once on (left, right), stores its result as the matrix, sets the
  image size to the left descriptor's width and height, and sets the flag; in every other
  case (a side missing, or the flag already true) it calls nothing and changes nothing but
  the stored descriptor. The right arrival does the same with the sides exchanged, and the
  image size still comes from the left descriptor. Neither callback dereferences a null
  pointer.
\<close>

theorem camera_info_derives_Q:
  "leftCameraInfoCallback getQ info s =
     (case (info, right_info s, Q_initialized s) of
        (Some l, Some r, False) \<Rightarrow>
          Some ([GetQForROSCameras l r :: ('k, 'dp, 'pc) effect],
                s\<lparr>left_info := Some l,
                  Q := getQ l r,
                  full_image_size := (real (unat (width l)), real (unat (height l))),
                  Q_initialized := True\<rparr>)
      | _ \<Rightarrow> Some ([], s\<lparr>left_info := info\<rparr>))
   \<and> rightCameraInfoCallback getQ info s =
     (case (left_info s, info, Q_initialized s) of
        (Some l, Some r, False) \<Rightarrow>
          Some ([GetQForROSCameras l r :: ('k, 'dp, 'pc) effect],
                s\<lparr>right_info := Some r,
                  Q := getQ l r,
                  full_image_size := (real (unat (width l)), real (unat (height l))),
                  Q_initialized := True\<rparr>)
      | _ \<Rightarrow> Some ([], s\<lparr>right_info := info\<rparr>))"
  by (simp add: leftCameraInfoCallback_def rightCameraInfoCallback_def calculateQ_def
      split: option.splits bool.splits)

theorem camera_info_derives_Q_witness:
  "(let started = (setParametersFromROS
                   \<lparr>resolution = 0, probability_hit = 0, probability_miss = 0,
                    threshold_min = 0, threshold_max = 0, threshold_occupancy = 0,
                    filter_speckles = True, sensor_max_range = 0, visualize_min_z = 0,
                    visualize_max_z = 0\<rparr>
                   \<lparr>param_tf_frame = None, param_resolution = None,
                    param_probability_hit = None, param_probability_miss = None,
                    param_threshold_min = None, param_threshold_max = None,
                    param_threshold_occupancy = None, param_filter_speckles = None,
                    param_sensor_max_range = None, param_visualize_min_z = None,
                    param_visualize_max_z = None, param_full_image_width = None,
                    param_full_image_height = None, param_map_publish_frequency = None,
                    param_Q = Some [1, 2, 3, 4, 5]\<rparr>
                   initial_members :: (unit, unit, unit) effect list \<times> manager);
        l = \<lparr>width = 640, height = 400, cam_K = [], cam_P = []\<rparr>;
        r = \<lparr>width = 320, height = 200, cam_K = [], cam_P = []\<rparr>;
        getQ = (\<lambda>l r. [1, 0, 0, 0,  0, 1, 0, 0,  0, 0, 0, 25 / 3,  -320, -240, 500, 0]);
        s1 = (snd started)\<lparr>left_info := Some l\<rparr>
    in hd (fst started) = RosError ''Invalid Q matrix size, expected size: 16, actual size: 5''
       \<and> \<not> Q_initialized (snd started)
       \<and> leftCameraInfoCallback getQ (Some l) (snd started)
           = Some ([] :: (unit, unit, unit) effect list, s1)
       \<and> rightCameraInfoCallback getQ (Some r) s1
           = Some ([GetQForROSCameras l r :: (unit, unit, unit) effect],
                   s1\<lparr>right_info := Some r, Q := getQ l r, full_image_size := (640, 400),
                      Q_initialized := True\<rparr>))"
proof -
  have five: "decimal (Suc (Suc (Suc (Suc (Suc 0))))) = ''5''"
    by (simp add: decimal.simps digit_def)
  have size: "length [1, 2, 3, 4, 5 :: real] \<noteq> 16"
    by simp
  show ?thesis
    using camera_info_derives_Q
      [where 'k = unit and 'dp = unit and 'pc = unit
         and getQ = "\<lambda>l r. [1, 0, 0, 0,  0, 1, 0, 0,  0, 0, 0, 25 / 3,  -320, -240, 500, 0]"
         and info = "Some \<lparr>width = 640, height = 400, cam_K = [], cam_P = []\<rparr>"
         and s = initial_members]
    by (simp add: Let_def setParametersFromROS_def setQFromParams_bad [OF size] five param_def
        initial_members_def leftCameraInfoCallback_def rightCameraInfoCallback_def
        calculateQ_def)
qed

section \<open>Services\<close>


lemma resetMapCallback_returns:
  "resetMapCallback request = Defined [ResetMap] True"
  by (simp add: resetMapCallback_def resetMapCallback_body_def call_bool_function_def)


text \<open>
  What \<^verbatim>\<open>advertiseServices\<close> does to the members named in this file: it advertises six
  services, \<^verbatim>\<open>load_map\<close> fifth and \<^verbatim>\<open>set_box_occupancy\<close> sixth, and assigns both handles
  to \<^verbatim>\<open>load_octree_service_\<close>. Afterwards that member holds the \<^verbatim>\<open>set_box_occupancy\<close>
  handle, and the five members hold the handles of \<^verbatim>\<open>reset_map\<close>, \<^verbatim>\<open>publish_all\<close>,
  \<^verbatim>\<open>get_map\<close>, \<^verbatim>\<open>save_map\<close> and \<^verbatim>\<open>set_box_occupancy\<close>. Which members the class declares
  is written in its header, outside this file, so nothing is said here about members that
  this file never names.
\<close>

lemma advertiseServices_members:
  "load_octree_service (snd (advertiseServices s))
     = Some (ServiceServer ''set_box_occupancy'' SetBoxOccupancyCallback)
   \<and> map (map_option service_name) (service_members (snd (advertiseServices s)))
       = [Some ''reset_map'', Some ''publish_all'', Some ''get_map'', Some ''save_map'',
          Some ''set_box_occupancy'']
   \<and> Some (ServiceServer ''load_map'' LoadOctomapCallback)
       \<notin> set (service_members (snd (advertiseServices s)))
   \<and> drop 4 (fst (advertiseServices s))
       = [AdvertiseService ''load_map'' LoadOctomapCallback,
          AdvertiseService ''set_box_occupancy'' SetBoxOccupancyCallback]"
  by (simp add: advertiseServices_def advertiseService_def service_members_def)

end
